theory Spec2Isabelle
  imports Complex_Main
begin

section \<open>StickGame: data model\<close>

text \<open>
  A JavaScript number that stands for a pile of sticks is an integer, \<open>NaN\<close> or
  \<open>undefined\<close>: the source writes \<open>NaN\<close> as the placeholder of a pending
  \<open>nextState\<close>, and reading an array out of range gives \<open>undefined\<close>.
  The entries of the value table and the learning rate are JavaScript doubles; they are
  idealised as reals (no rounding, no infinities).
\<close>

datatype jsnum = Num int | NaN | Undefined

text \<open>\<open>a - b\<close> on numbers: anything that is not a number gives \<open>NaN\<close>.\<close>

fun js_sub :: "jsnum \<Rightarrow> jsnum \<Rightarrow> jsnum" where
  "js_sub (Num a) (Num b) = Num (a - b)"
| "js_sub _ _ = NaN"

text \<open>\<open>a <= 0\<close>: false for \<open>NaN\<close> and for \<open>undefined\<close>.\<close>

fun js_le0 :: "jsnum \<Rightarrow> bool" where
  "js_le0 (Num a) = (a \<le> 0)"
| "js_le0 _ = False"

text \<open>\<open>xs[i]\<close>: \<open>undefined\<close> out of range.\<close>

definition js_nth :: "jsnum list \<Rightarrow> nat \<Rightarrow> jsnum" where
  "js_nth xs i = (if i < length xs then xs ! i else Undefined)"

text \<open>One entry of \<open>Player.history\<close>.\<close>

record transition =
  action :: jsnum
  prevState :: jsnum
  nextState :: jsnum
  reward :: int

text \<open>The fields of class \<open>Player\<close>, and those \<open>PlayerAI\<close> adds.\<close>

record Player =
  history :: "transition list"
  rewards :: "int list"
  winCount :: nat
  loseCount :: nat

type_synonym table = "jsnum \<rightharpoonup> real"

record PlayerAI = Player +
  eps :: real
  lr :: real
  values_tab :: table

section \<open>Player\<close>


definition gameRestart :: "'p Player_scheme \<Rightarrow> 'p Player_scheme" where
  "gameRestart p = p\<lparr>history := []\<rparr>"

text \<open>\<open>this.history[this.history.length - 1].f = v\<close>, on a history that is not empty.\<close>

definition upd_last :: "(transition \<Rightarrow> transition) \<Rightarrow> transition list \<Rightarrow> transition list" where
  "upd_last f h = h[length h - 1 := f (h ! (length h - 1))]"

definition turnFinished ::
  "bool \<Rightarrow> bool \<Rightarrow> jsnum \<Rightarrow> jsnum \<Rightarrow> jsnum \<Rightarrow> 'p Player_scheme \<Rightarrow> 'p Player_scheme" where
  "turnFinished isPlayerTurn isGameOver prevSt nextSt act p =
     (if isPlayerTurn then
        (let p1 = p\<lparr>history := history p @
                   [\<lparr>action = act, prevState = prevSt, nextState = NaN, reward = 0\<rparr>]\<rparr>
         in if isGameOver then
              p1\<lparr>history := upd_last (\<lambda>t. t\<lparr>reward := - 1\<rparr>) (history p1),
                 rewards := rewards p1 @ [- 1],
                 loseCount := loseCount p1 + 1\<rparr>
            else p1)
      else if length (history p) > 0 then
        (let p1 = p\<lparr>history := upd_last (\<lambda>t. t\<lparr>nextState := nextSt\<rparr>) (history p)\<rparr>
         in if isGameOver then
              p1\<lparr>history := upd_last (\<lambda>t. t\<lparr>reward := 1\<rparr>) (history p1),
                 rewards := rewards p1 @ [1],
                 winCount := winCount p1 + 1\<rparr>
            else p1)
      else p)"

section \<open>PlayerAI.train\<close>

text \<open>\<open>this.values[k] || 0\<close>: a missing entry and a stored 0 both give 0.\<close>

definition value_or_0 :: "real option \<Rightarrow> real" where
  "value_or_0 v = (case v of None \<Rightarrow> 0 | Some x \<Rightarrow> if x = 0 then 0 else x)"

text \<open>The body of the \<open>for ... of\<close> loop, over the records still to visit.\<close>

fun train_loop :: "real \<Rightarrow> table \<Rightarrow> transition list \<Rightarrow> table" where
  "train_loop rate vals [] = vals"
| "train_loop rate vals (t # ts) =
     (let prevStateValue = value_or_0 (vals (prevState t));
          nextStateValue = value_or_0 (vals (nextState t));
          prevStateValue' =
            (if reward t = 0 then prevStateValue + rate * (nextStateValue - prevStateValue)
             else prevStateValue + rate * (of_int (reward t) - prevStateValue))
      in train_loop rate (vals(prevState t \<mapsto> prevStateValue')) ts)"

text \<open>
  \<open>this.history.reverse()\<close> reverses the array in place and returns it; the loop
  then walks the reversed array.
\<close>

definition train :: "PlayerAI \<Rightarrow> PlayerAI" where
  "train ai =
     (let h = rev (history ai)
      in ai\<lparr>history := h, values_tab := train_loop (lr ai) (values_tab ai) h\<rparr>)"

subsection \<open>The update rule as the specification words it\<close>

definition table_get :: "table \<Rightarrow> jsnum \<Rightarrow> real" where
  "table_get tbl k = (case tbl k of None \<Rightarrow> 0 | Some v \<Rightarrow> v)"

definition td_update :: "real \<Rightarrow> table \<Rightarrow> transition \<Rightarrow> table" where
  "td_update \<alpha> tbl t =
     (let v_prev = table_get tbl (prevState t);
          v_next = table_get tbl (nextState t)
      in tbl(prevState t \<mapsto>
           (if reward t = 0 then v_prev + \<alpha> * (v_next - v_prev)
            else v_prev + \<alpha> * (of_int (reward t) - v_prev))))"

section \<open>Action selection\<close>

text \<open>
  What a \<open>play\<close> method can raise: the \<open>TypeError\<close> of \<open>reduce\<close> on an empty
  array without initial value, and the \<open>Error("Bad action: ...")\<close> of the synchronous
  \<open>HumanPlayer\<close>.
\<close>

datatype error = TypeError | BadAction jsnum

text \<open>
  \<open>Math.random()\<close> is an input of the model: a real \<open>rnd\<close> with \<open>0 \<le> rnd < 1\<close>.
\<close>

definition randChoice :: "real \<Rightarrow> jsnum list \<Rightarrow> jsnum" where
  "randChoice rnd vs = js_nth vs (nat \<lfloor>rnd * real (length vs)\<rfloor>)"

text \<open>\<open>Player.play\<close>: the first of the offered states.\<close>

definition Player_play :: "'p Player_scheme \<Rightarrow> jsnum \<Rightarrow> jsnum list \<Rightarrow> error + jsnum" where
  "Player_play p state possibleNextStates = Inr (js_nth possibleNextStates 0)"

definition RandomPlayer_play ::
  "real \<Rightarrow> 'p Player_scheme \<Rightarrow> jsnum \<Rightarrow> jsnum list \<Rightarrow> error + jsnum" where
  "RandomPlayer_play rnd p state possibleNextStates = Inr (randChoice rnd possibleNextStates)"

text \<open>
  \<open>this.values[current] < this.values[min]\<close>: the two entries are read without
  \<open>|| 0\<close>, and a comparison with \<open>undefined\<close> is false.
\<close>

definition js_lt :: "real option \<Rightarrow> real option \<Rightarrow> bool" where
  "js_lt a b =
     (case a of None \<Rightarrow> False
      | Some x \<Rightarrow> (case b of None \<Rightarrow> False | Some y \<Rightarrow> x < y))"

text \<open>
  \<open>possibleNextStates.reduce((min, current) => ...)\<close> has no initial value: it starts
  from the first element and raises a \<open>TypeError\<close> on an empty array.
\<close>

fun greedyStep :: "PlayerAI \<Rightarrow> jsnum \<Rightarrow> jsnum list \<Rightarrow> error + jsnum" where
  "greedyStep ai currentState [] = Inl TypeError"
| "greedyStep ai currentState (first # others) =
     Inr (foldl (\<lambda>min current.
                   if js_lt (values_tab ai current) (values_tab ai min) then current else min)
                first others)"

text \<open>\<open>PlayerAI.play\<close>, with its two random draws \<open>r\<close> and \<open>rnd\<close>.\<close>

definition PlayerAI_play ::
  "real \<Rightarrow> real \<Rightarrow> PlayerAI \<Rightarrow> jsnum \<Rightarrow> jsnum list \<Rightarrow> error + jsnum" where
  "PlayerAI_play r rnd ai state possibleNextStates =
     (if r < eps ai then Inr (randChoice rnd possibleNextStates)
      else greedyStep ai state possibleNextStates)"

section \<open>HumanPlayer\<close>

text \<open>
  \<open>parseInt(s, 10)\<close>: leading white space is skipped, then an optional sign, then the
  longest run of decimal digits; \<open>NaN\<close> when there is no digit. Strings are byte
  strings here, so only the ASCII white space is skipped.
\<close>

definition isWhiteSpace :: "char \<Rightarrow> bool" where
  "isWhiteSpace c =
     (c = CHR '' '' \<or> c = CHR 0x09 \<or> c = CHR 0x0A \<or> c = CHR 0x0B \<or> c = CHR 0x0C
      \<or> c = CHR 0x0D)"

definition isDigit :: "char \<Rightarrow> bool" where
  "isDigit c = (48 \<le> (of_char c :: nat) \<and> (of_char c :: nat) \<le> 57)"

definition digitsValue :: "string \<Rightarrow> int" where
  "digitsValue ds = foldl (\<lambda>acc d. 10 * acc + (int (of_char d) - 48)) 0 ds"

definition parseInt :: "string \<Rightarrow> jsnum" where
  "parseInt s =
     (let s1 = dropWhile isWhiteSpace s;
          neg = (case s1 of [] \<Rightarrow> False | c # r \<Rightarrow> c = CHR ''-'');
          s2 = (case s1 of [] \<Rightarrow> []
                | c # r \<Rightarrow> if c = CHR ''+'' \<or> c = CHR ''-'' then r else s1);
          ds = takeWhile isDigit s2
      in if ds = [] then NaN
         else Num (if neg then - digitsValue ds else digitsValue ds))"

text \<open>\<open>action !== NaN\<close> is true for every value, \<open>NaN\<close> included.\<close>

definition js_strict_ne_NaN :: "jsnum \<Rightarrow> bool" where
  "js_strict_ne_NaN a = True"

fun js_gt0 :: "jsnum \<Rightarrow> bool" where
  "js_gt0 (Num a) = (0 < a)"
| "js_gt0 _ = False"

fun js_le_nat :: "jsnum \<Rightarrow> nat \<Rightarrow> bool" where
  "js_le_nat (Num a) n = (a \<le> int n)"
| "js_le_nat _ n = False"

text \<open>
  The test \<open>action !== NaN && action > 0 && action <= possibleNextStates.length\<close>.
\<close>

definition valid_action :: "jsnum \<Rightarrow> jsnum list \<Rightarrow> bool" where
  "valid_action a possibleNextStates =
     (js_strict_ne_NaN a \<and> js_gt0 a \<and> js_le_nat a (length possibleNextStates))"

text \<open>\<open>xs[i]\<close> for a computed index.\<close>

fun js_index :: "jsnum list \<Rightarrow> jsnum \<Rightarrow> jsnum" where
  "js_index xs (Num i) = (if 0 \<le> i then js_nth xs (nat i) else Undefined)"
| "js_index xs _ = Undefined"

text \<open>The synchronous variant reads one line and throws on a bad one.\<close>

definition HumanPlayer_play ::
  "string \<Rightarrow> 'p Player_scheme \<Rightarrow> jsnum \<Rightarrow> jsnum list \<Rightarrow> error + jsnum" where
  "HumanPlayer_play userInput p state possibleNextStates =
     (if valid_action (parseInt userInput) possibleNextStates
      then Inr (js_index possibleNextStates (js_sub (parseInt userInput) (Num 1)))
      else Inl (BadAction (parseInt userInput)))"

text \<open>
  The terminal variant loops (\<open>while(true)\<close>) over the keys typed: \<open>input k\<close> is the
  \<open>k\<close>-th answer. The loop has no exit but the \<open>return\<close>, so the result is \<open>None\<close>
  when it never returns. What it prints is left out.
\<close>

partial_function (option) HumanPlayer_play_async ::
  "(nat \<Rightarrow> string) \<Rightarrow> nat \<Rightarrow> jsnum list \<Rightarrow> jsnum option" where
  "HumanPlayer_play_async input k possibleNextStates =
     (if valid_action (parseInt (input k)) possibleNextStates
      then Some (js_index possibleNextStates (js_sub (parseInt (input k)) (Num 1)))
      else HumanPlayer_play_async input (Suc k) possibleNextStates)"

section \<open>StickGame\<close>

text \<open>
  The two players are two distinct objects. \<open>player\<close> is the active-player pointer:
  \<open>False\<close> for \<open>player1\<close>.
\<close>

record 'p StickGame =
  player1 :: "'p Player_scheme"
  player2 :: "'p Player_scheme"
  size_cfg :: jsnum
  actions :: "jsnum list"
  nstick :: jsnum
  finished :: bool
  player :: bool

text \<open>\<open>!!startPlayer\<close> is false for 0 and true for any other integer.\<close>

definition restart :: "int \<Rightarrow> 'p StickGame \<Rightarrow> 'p StickGame" where
  "restart startPlayer g =
     g\<lparr>nstick := size_cfg g, finished := False, player := (startPlayer \<noteq> 0),
       player1 := gameRestart (player1 g), player2 := gameRestart (player2 g)\<rparr>"

text \<open>The constructor stores its arguments and calls \<open>restart\<close>.\<close>

definition new_StickGame ::
  "'p Player_scheme \<Rightarrow> 'p Player_scheme \<Rightarrow> int \<Rightarrow> jsnum \<Rightarrow> jsnum list \<Rightarrow> 'p StickGame" where
  "new_StickGame p1 p2 startPlayer sz acts =
     restart startPlayer
       \<lparr>player1 = p1, player2 = p2, size_cfg = sz, actions = acts,
        nstick = Undefined, finished = False, player = False\<rparr>"

definition isFinished :: "'p StickGame \<Rightarrow> bool" where
  "isFinished g = finished g"

definition getPlayer :: "bool \<Rightarrow> 'p StickGame \<Rightarrow> 'p Player_scheme" where
  "getPlayer opponent g =
     (if (player g = False \<and> \<not> opponent) \<or> (player g = True \<and> opponent)
      then player1 g else player2 g)"

text \<open>
  \<open>getPlayer\<close> returns a reference: what \<open>turnFinished\<close> changes through it is
  written back to the same field.
\<close>

definition setPlayer :: "bool \<Rightarrow> 'p Player_scheme \<Rightarrow> 'p StickGame \<Rightarrow> 'p StickGame" where
  "setPlayer opponent p g =
     (if (player g = False \<and> \<not> opponent) \<or> (player g = True \<and> opponent)
      then g\<lparr>player1 := p\<rparr> else g\<lparr>player2 := p\<rparr>)"

text \<open>The array handed to \<open>play\<close>.\<close>

definition possibleNStick :: "'p StickGame \<Rightarrow> jsnum list" where
  "possibleNStick g = map (\<lambda>a. js_sub (nstick g) a) (actions g)"

text \<open>
  The \<open>play\<close> method of the active player is a parameter of the turn: any of the
  methods above with its random draws or its typed line supplied.
\<close>

type_synonym 'p play_fn = "'p Player_scheme \<Rightarrow> jsnum \<Rightarrow> jsnum list \<Rightarrow> error + jsnum"

definition playNextTurn :: "'p play_fn \<Rightarrow> 'p StickGame \<Rightarrow> error + 'p StickGame" where
  "playNextTurn play g =
     (let pl = getPlayer False g;
          opponent = getPlayer True g;
          prevNStick = nstick g
      in case play pl (nstick g) (possibleNStick g) of
           Inl e \<Rightarrow> Inl e
         | Inr n \<Rightarrow>
             (let fin = (if js_le0 n then True else finished g);
                  g1 = setPlayer False
                         (turnFinished True fin prevNStick n (js_sub prevNStick n) pl) g;
                  g2 = setPlayer True
                         (turnFinished False fin prevNStick n (js_sub prevNStick n) opponent) g1
              in Inr (g2\<lparr>nstick := n, finished := fin, player := \<not> player g\<rparr>)))"

text \<open>
  \<open>while(!game.isFinished()) game.playNextTurn()\<close>, with the \<open>play\<close> method of each
  turn in a list: \<open>None\<close> when the loop is still running after the last of them.
\<close>

fun play_game :: "'p play_fn list \<Rightarrow> 'p StickGame \<Rightarrow> (error + 'p StickGame) option" where
  "play_game [] g = (if isFinished g then Some (Inr g) else None)"
| "play_game (play # rest) g =
     (if isFinished g then Some (Inr g)
      else (case playNextTurn play g of
              Inl e \<Rightarrow> Some (Inl e)
            | Inr g' \<Rightarrow> play_game rest g'))"

section \<open>Constructors\<close>

definition new_Player :: Player where
  "new_Player = \<lparr>history = [], rewards = [], winCount = 0, loseCount = 0\<rparr>"

definition new_PlayerAI :: "table \<Rightarrow> real \<Rightarrow> real \<Rightarrow> PlayerAI" where
  "new_PlayerAI vals e rate =
     \<lparr>history = [], rewards = [], winCount = 0, loseCount = 0,
      eps = e, lr = rate, values_tab = vals\<rparr>"

section \<open>Sample games\<close>

definition one_stick_game :: "unit StickGame" where
  "one_stick_game = new_StickGame new_Player new_Player 0 (Num 1) [Num 1, Num 2, Num 3]"

definition no_action_game :: "unit StickGame" where
  "no_action_game = new_StickGame new_Player new_Player 0 (Num 24) []"

definition no_action_ai_game :: "\<lparr>eps :: real, lr :: real, values_tab :: table\<rparr> StickGame" where
  "no_action_ai_game =
     new_StickGame (new_PlayerAI Map.empty 0 (1 / 10)) (new_PlayerAI Map.empty 0 (1 / 10))
       0 (Num 24) []"

section \<open>Vocabulary of the properties\<close>

text \<open>What a game does to the statistics of a player: \<open>p\<close> before, \<open>p'\<close> after.\<close>

definition lost :: "'p Player_scheme \<Rightarrow> 'p Player_scheme \<Rightarrow> bool" where
  "lost p p' = (rewards p' = rewards p @ [- 1] \<and> loseCount p' = loseCount p + 1
                \<and> winCount p' = winCount p)"

definition won :: "'p Player_scheme \<Rightarrow> 'p Player_scheme \<Rightarrow> bool" where
  "won p p' = (rewards p' = rewards p @ [1] \<and> winCount p' = winCount p + 1
               \<and> loseCount p' = loseCount p)"

definition same_stats :: "'p Player_scheme \<Rightarrow> 'p Player_scheme \<Rightarrow> bool" where
  "same_stats p p' = (rewards p' = rewards p \<and> winCount p' = winCount p
                      \<and> loseCount p' = loseCount p)"

text \<open>
  The player that did not make the last move: it has won when it has a record of its own,
  that is when it has moved in this game.
\<close>

definition won_if_moved :: "'p Player_scheme \<Rightarrow> 'p Player_scheme \<Rightarrow> bool" where
  "won_if_moved p p' = (if history p' = [] then same_stats p p' else won p p')"

text \<open>
  After the last turn the pointer has left the player that made it: that player is
  \<open>player1\<close> when the pointer is on \<open>player2\<close>.
\<close>

definition terminal_rewards ::
  "'p Player_scheme \<Rightarrow> 'p Player_scheme \<Rightarrow> 'p StickGame \<Rightarrow> bool" where
  "terminal_rewards P1 P2 g' =
     (if player g' then lost P1 (player1 g') \<and> won_if_moved P2 (player2 g')
      else lost P2 (player2 g') \<and> won_if_moved P1 (player1 g'))"

text \<open>
  A record is finalized when the notification of the opponent's next move has filled its
  \<open>nextState\<close>; \<open>NaN\<close> is the placeholder of a pending one.
\<close>

fun is_Num :: "jsnum \<Rightarrow> bool" where
  "is_Num (Num a) = True"
| "is_Num _ = False"

definition reward_ok :: "transition \<Rightarrow> bool" where
  "reward_ok t = (reward t = - 1 \<or> reward t = 0 \<or> reward t = 1)"

definition finalized :: "transition \<Rightarrow> bool" where
  "finalized t = (is_Num (nextState t) \<and> reward_ok t)"

definition pending_zero :: "transition \<Rightarrow> bool" where
  "pending_zero t = (nextState t = NaN \<and> reward t = 0)"

text \<open>
  During a game the records of the player about to move are all filled, with reward 0;
  the last record of the other player is pending.
\<close>

definition filled_zero :: "transition \<Rightarrow> bool" where
  "filled_zero t = (is_Num (nextState t) \<and> reward t = 0)"

definition mover_ok :: "transition list \<Rightarrow> bool" where
  "mover_ok h = list_all filled_zero h"

definition other_ok :: "transition list \<Rightarrow> bool" where
  "other_ok h = (h = [] \<or> (list_all filled_zero (butlast h) \<and> pending_zero (last h)))"

text \<open>
  At the end of a game: every record of the player that did not make the last move, and
  every record but the last of the player that did, is finalized; no record of either has a
  pending \<open>nextState\<close> with reward 0.
\<close>

definition records_ok :: "'p StickGame \<Rightarrow> bool" where
  "records_ok g' =
     (list_all finalized (history (getPlayer False g'))
      \<and> list_all finalized (butlast (history (getPlayer True g')))
      \<and> list_all (\<lambda>t. reward_ok t \<and> \<not> pending_zero t)
           (history (getPlayer False g') @ history (getPlayer True g')))"

text \<open>The contract of \<open>play\<close>: it returns one of the states it is offered.\<close>

definition conforming :: "'p play_fn \<Rightarrow> bool" where
  "conforming play =
     (\<forall>p s ps. ps \<noteq> [] \<longrightarrow> (case play p s ps of Inl e \<Rightarrow> True | Inr n \<Rightarrow> n \<in> set ps))"

text \<open>A game of two sticks between two default players, before and after.\<close>

definition two_stick_setup :: "unit StickGame" where
  "two_stick_setup =
     \<lparr>player1 = new_Player, player2 = new_Player, size_cfg = Num 2,
      actions = [Num 1, Num 2, Num 3], nstick = Undefined, finished = False, player = False\<rparr>"

definition two_stick_final :: "unit StickGame" where
  "two_stick_final =
     \<lparr>player1 = \<lparr>history = [\<lparr>action = Num 1, prevState = Num 2, nextState = Num 0, reward = 1\<rparr>],
                 rewards = [1], winCount = 1, loseCount = 0\<rparr>,
      player2 = \<lparr>history = [\<lparr>action = Num 1, prevState = Num 1, nextState = NaN, reward = - 1\<rparr>],
                 rewards = [- 1], winCount = 0, loseCount = 1\<rparr>,
      size_cfg = Num 2, actions = [Num 1, Num 2, Num 3], nstick = Num 0,
      finished = True, player = False\<rparr>"

text \<open>
  The keys a user types, with three offered states: a letter, an index below the range, an
  index above it, then the last valid index. And a user that types the first index at once.
\<close>

definition typed_keys :: "nat \<Rightarrow> string" where
  "typed_keys k =
     (if k = 0 then ''x'' else if k = 1 then ''0'' else if k = 2 then ''4'' else ''3'')"

definition one_key :: "nat \<Rightarrow> string" where
  "one_key k = ''1''"

text \<open>
  An agent after a game it has won from pile 4 (it left 2, then 0), with a table that has
  entries for both piles; and an agent with the same history, table and learning rate but
  another exploration rate and other statistics.
\<close>

definition ai_after_win :: PlayerAI where
  "ai_after_win =
     \<lparr>history = [\<lparr>action = Num 2, prevState = Num 4, nextState = Num 2, reward = 0\<rparr>,
                 \<lparr>action = Num 1, prevState = Num 2, nextState = Num 0, reward = 1\<rparr>],
      rewards = [1], winCount = 1, loseCount = 0,
      eps = 99 / 100, lr = 1 / 10, values_tab = [Num 2 \<mapsto> 1 / 2, Num 4 \<mapsto> 1 / 5]\<rparr>"

definition ai_same_inputs :: PlayerAI where
  "ai_same_inputs = ai_after_win\<lparr>eps := 1 / 20, rewards := [], winCount := 0\<rparr>"

section \<open>Properties of train\<close>

lemma value_or_0_table_get: "value_or_0 (tbl k) = table_get tbl k"
  by (simp add: value_or_0_def table_get_def split: option.split)

lemma train_loop_foldl: "train_loop rate vals ts = foldl (td_update rate) vals ts"
  by (induction ts arbitrary: vals)
     (simp_all add: td_update_def value_or_0_table_get Let_def)

text \<open>
  C1. \<open>train\<close> visits the records of the history from the most recent to the oldest,
  and at each record writes at key \<open>prevState\<close> the value
  \<open>v_prev + lr * (v_next - v_prev)\<close> when the reward is 0 and
  \<open>v_prev + lr * (reward - v_prev)\<close> otherwise, where \<open>v_prev\<close> and \<open>v_next\<close> are
  the entries stored at that moment, 0 when the key is missing.
\<close>

theorem train_reverse_td_update:
  "values_tab (train ai) = foldl (td_update (lr ai)) (values_tab ai) (rev (history ai))"
  by (simp add: train_def Let_def train_loop_foldl)

text \<open>
  C9. The table \<open>train\<close> produces depends on the history, the table and the learning
  rate only: two agents that agree on these three get the same table, whatever their
  exploration rate and their statistics are.
\<close>

theorem train_deterministic:
  assumes "history a = history b" and "values_tab a = values_tab b" and "lr a = lr b"
  shows "values_tab (train a) = values_tab (train b)"
  using assms by (simp add: train_def Let_def)

theorem train_deterministic_witness:
  "history ai_after_win = history ai_same_inputs
   \<and> values_tab ai_after_win = values_tab ai_same_inputs
   \<and> lr ai_after_win = lr ai_same_inputs
   \<and> eps ai_after_win = 99 / 100 \<and> eps ai_same_inputs = 1 / 20
   \<and> values_tab (train ai_after_win) = values_tab (train ai_same_inputs)
   \<and> values_tab (train ai_same_inputs) (Num 2) = Some (11 / 20)
   \<and> values_tab (train ai_same_inputs) (Num 4) = Some (47 / 200)"
proof -
  have a: "history ai_after_win = history ai_same_inputs"
    by (simp add: ai_same_inputs_def)
  have b: "values_tab ai_after_win = values_tab ai_same_inputs"
    by (simp add: ai_same_inputs_def)
  have c: "lr ai_after_win = lr ai_same_inputs"
    by (simp add: ai_same_inputs_def)
  have d: "values_tab (train ai_same_inputs) (Num 2) = Some (11 / 20)"
          "values_tab (train ai_same_inputs) (Num 4) = Some (47 / 200)"
    by (simp_all add: ai_same_inputs_def ai_after_win_def train_def Let_def value_or_0_def)
  have e: "eps ai_after_win = 99 / 100" "eps ai_same_inputs = 1 / 20"
    by (simp_all add: ai_same_inputs_def ai_after_win_def)
  from train_deterministic [OF a b c] a b c d e show ?thesis by simp
qed


section \<open>Properties of greedyStep\<close>

text \<open>
  When every offered state has an entry in the table, the reduction returns the first of
  the states whose stored value is the least.
\<close>

lemma js_lt_present:
  "tbl c \<noteq> None \<Longrightarrow> tbl m \<noteq> None \<Longrightarrow> js_lt (tbl c) (tbl m) = (table_get tbl c < table_get tbl m)"
  by (auto simp add: js_lt_def table_get_def)

lemma reduce_first_min:
  assumes "\<forall>s\<in>set (a # xs). tbl s \<noteq> None"
  shows "\<exists>i<length (a # xs).
           foldl (\<lambda>min current. if js_lt (tbl current) (tbl min) then current else min) a xs
             = (a # xs) ! i
           \<and> (\<forall>j<length (a # xs). table_get tbl ((a # xs) ! i) \<le> table_get tbl ((a # xs) ! j))
           \<and> (\<forall>j<i. table_get tbl ((a # xs) ! i) < table_get tbl ((a # xs) ! j))"
  using assms
proof (induction xs rule: rev_induct)
  case Nil
  then show ?case by simp
next
  case (snoc x xs)
  let ?f = "\<lambda>min current. if js_lt (tbl current) (tbl min) then current else min"
  let ?ys = "a # xs"
  from snoc.prems have pres: "\<forall>s\<in>set ?ys. tbl s \<noteq> None" and px: "tbl x \<noteq> None" by simp_all
  from snoc.IH [OF pres] obtain i where i: "i < length ?ys"
    and r: "foldl ?f a xs = ?ys ! i"
    and least: "\<forall>j<length ?ys. table_get tbl (?ys ! i) \<le> table_get tbl (?ys ! j)"
    and first: "\<forall>j<i. table_get tbl (?ys ! i) < table_get tbl (?ys ! j)"
    by blast
  from i pres have pr: "tbl (?ys ! i) \<noteq> None" using nth_mem by blast
  have app: "a # xs @ [x] = ?ys @ [x]" by simp
  have old: "(a # xs @ [x]) ! j = ?ys ! j" if "j < length ?ys" for j
    using that by (metis app nth_append)
  have new: "(a # xs @ [x]) ! length ?ys = x"
    by (metis app nth_append_length)
  have len: "length (a # xs @ [x]) = Suc (length ?ys)" by simp
  show ?case
  proof (cases "table_get tbl x < table_get tbl (?ys ! i)")
    case True
    with r px pr have res: "foldl ?f a (xs @ [x]) = x" by (simp add: js_lt_present)
    have le: "table_get tbl x \<le> table_get tbl ((a # xs @ [x]) ! j)"
      if "j < length (a # xs @ [x])" for j
    proof (cases "j < length ?ys")
      case jl: True
      with least have "table_get tbl (?ys ! i) \<le> table_get tbl (?ys ! j)" by blast
      with True show ?thesis unfolding old [OF jl] by linarith
    next
      case False
      with that len have "j = length ?ys" by linarith
      then show ?thesis unfolding new by (simp only: new order_refl)
    qed
    have lt: "table_get tbl x < table_get tbl ((a # xs @ [x]) ! j)" if "j < length ?ys" for j
    proof -
      from that least have "table_get tbl (?ys ! i) \<le> table_get tbl (?ys ! j)" by blast
      with True show ?thesis unfolding old [OF that] by linarith
    qed
    from res new le lt len show ?thesis
      by (intro exI [of _ "length ?ys"]) (simp only: lessI, metis)
  next
    case False
    with r px pr have res: "foldl ?f a (xs @ [x]) = ?ys ! i" by (simp add: js_lt_present)
    have le: "table_get tbl (?ys ! i) \<le> table_get tbl ((a # xs @ [x]) ! j)"
      if "j < length (a # xs @ [x])" for j
    proof (cases "j < length ?ys")
      case jl: True
      with least show ?thesis unfolding old [OF jl] by blast
    next
      case jl: False
      with that len have "j = length ?ys" by linarith
      with False show ?thesis by (simp only: new)
    qed
    have lt: "table_get tbl (?ys ! i) < table_get tbl ((a # xs @ [x]) ! j)" if "j < i" for j
    proof -
      from that i have jl: "j < length ?ys" by linarith
      from that first show ?thesis unfolding old [OF jl] by blast
    qed
    from i len have "i < length (a # xs @ [x])" by linarith
    with res old [OF i] le lt show ?thesis
      by (intro exI [of _ i]) (simp only:, metis)
  qed
qed

lemma greedyStep_first_min_when_present:
  assumes "ps \<noteq> []" and "\<forall>s\<in>set ps. values_tab ai s \<noteq> None"
  shows "\<exists>i<length ps. greedyStep ai c ps = Inr (ps ! i)
           \<and> (\<forall>j<length ps. table_get (values_tab ai) (ps ! i) \<le> table_get (values_tab ai) (ps ! j))
           \<and> (\<forall>j<i. table_get (values_tab ai) (ps ! i) < table_get (values_tab ai) (ps ! j))"
proof (cases ps)
  case Nil
  with assms(1) show ?thesis by simp
next
  case (Cons a xs)
  with assms(2) have "\<forall>s\<in>set (a # xs). values_tab ai s \<noteq> None" by simp
  from reduce_first_min [OF this] show ?thesis unfolding Cons by simp
qed

text \<open>
  C2. The greedy step should return the offered state whose stored value is the least,
  a state missing from the table counting as 0. It does not when an entry is missing: with
  the table \<open>{2: 0.001}\<close> (one win from pile 2) and the offered states \<open>[2, 1, 0]\<close>
  of pile 3 it returns 2, although the missing state 1 counts as \<open>0 < 0.001\<close>. The two
  entries are compared without the \<open>|| 0\<close> that \<open>train\<close> applies, and a comparison
  with \<open>undefined\<close> is false.
\<close>

theorem greedyStep_missing_entry:
  "greedyStep (new_PlayerAI [Num 2 \<mapsto> 1 / 1000] 0 (1 / 1000)) (Num 3) [Num 2, Num 1, Num 0]
     = Inr (Num 2)
   \<and> table_get (values_tab (new_PlayerAI [Num 2 \<mapsto> 1 / 1000] 0 (1 / 1000))) (Num 1)
     < table_get (values_tab (new_PlayerAI [Num 2 \<mapsto> 1 / 1000] 0 (1 / 1000))) (Num 2)"
  by (simp add: new_PlayerAI_def js_lt_def table_get_def)

section \<open>Properties of playNextTurn\<close>

text \<open>
  C5. From a game in progress, when the active player's \<open>play\<close> returns \<open>n\<close>, the
  turn completes, the game is finished afterwards exactly when \<open>n\<close> is a number that is
  at most 0 (and is still in progress otherwise), and the active-player pointer is
  flipped, after a terminal move too.
\<close>

theorem playNextTurn_finishes_and_flips:
  assumes "\<not> finished g"
    and "play (getPlayer False g) (nstick g) (possibleNStick g) = Inr n"
  shows "\<exists>g'. playNextTurn play g = Inr g' \<and> nstick g' = n
            \<and> finished g' = (\<exists>k. n = Num k \<and> k \<le> 0) \<and> player g' = (\<not> player g)"
  using assms by (cases n) (simp_all add: playNextTurn_def Let_def)

theorem playNextTurn_finishes_and_flips_witness:
  "\<not> finished one_stick_game
   \<and> Player_play (getPlayer False one_stick_game) (nstick one_stick_game)
        (possibleNStick one_stick_game) = Inr (Num 0)
   \<and> (\<exists>g'. playNextTurn Player_play one_stick_game = Inr g' \<and> nstick g' = Num 0
            \<and> finished g' \<and> \<not> player one_stick_game \<and> player g')
   \<and> \<not> finished (restart 0 two_stick_setup)
   \<and> Player_play (getPlayer False (restart 0 two_stick_setup)) (nstick (restart 0 two_stick_setup))
        (possibleNStick (restart 0 two_stick_setup)) = Inr (Num 1)
   \<and> (\<exists>g'. playNextTurn Player_play (restart 0 two_stick_setup) = Inr g' \<and> nstick g' = Num 1
            \<and> \<not> finished g' \<and> \<not> player (restart 0 two_stick_setup) \<and> player g')"
proof -
  have a: "\<not> finished one_stick_game"
    by (simp add: one_stick_game_def new_StickGame_def restart_def)
  have b: "Player_play (getPlayer False one_stick_game) (nstick one_stick_game)
        (possibleNStick one_stick_game) = Inr (Num 0)"
    by (simp add: one_stick_game_def new_StickGame_def restart_def Player_play_def
        possibleNStick_def js_nth_def)
  have c: "\<not> player one_stick_game"
    by (simp add: one_stick_game_def new_StickGame_def restart_def)
  have a': "\<not> finished (restart 0 two_stick_setup)"
    by (simp add: restart_def)
  have b': "Player_play (getPlayer False (restart 0 two_stick_setup))
        (nstick (restart 0 two_stick_setup)) (possibleNStick (restart 0 two_stick_setup))
      = Inr (Num 1)"
    by (simp add: two_stick_setup_def restart_def Player_play_def possibleNStick_def js_nth_def)
  have c': "\<not> player (restart 0 two_stick_setup)"
    by (simp add: restart_def)
  from playNextTurn_finishes_and_flips [of one_stick_game Player_play "Num 0"] a b c
  have first: "\<exists>g'. playNextTurn Player_play one_stick_game = Inr g' \<and> nstick g' = Num 0
            \<and> finished g' \<and> \<not> player one_stick_game \<and> player g'"
    by auto
  from playNextTurn_finishes_and_flips [of "restart 0 two_stick_setup" Player_play "Num 1"]
    a' b' c'
  have second: "\<exists>g'. playNextTurn Player_play (restart 0 two_stick_setup) = Inr g'
            \<and> nstick g' = Num 1 \<and> \<not> finished g' \<and> \<not> player (restart 0 two_stick_setup)
            \<and> player g'"
    by auto
  from a b first a' b' second show ?thesis by blast
qed

text \<open>
  C8. The states offered to the active player are \<open>p - a\<close> for each allowed action
  \<open>a\<close>, in the configured order and with nothing filtered out: for the pile 2 and the
  actions \<open>[1, 2, 3]\<close> they are \<open>[1, 0, -1]\<close>. The turn is decided by what \<open>play\<close>
  answers on exactly this list.
\<close>

theorem possibleNStick_all_actions:
  "possibleNStick (g\<lparr>nstick := Num p, actions := map Num as\<rparr>) = map (\<lambda>a. Num (p - a)) as
   \<and> possibleNStick (g\<lparr>nstick := Num 2, actions := [Num 1, Num 2, Num 3]\<rparr>)
       = [Num 1, Num 0, Num (- 1)]
   \<and> (case playNextTurn play g of
         Inl e \<Rightarrow> play (getPlayer False g) (nstick g) (possibleNStick g) = Inl e
       | Inr g' \<Rightarrow> play (getPlayer False g) (nstick g) (possibleNStick g) = Inr (nstick g'))"
  by (simp add: possibleNStick_def playNextTurn_def Let_def split: sum.split)

text \<open>
  C7, as stated, fails: with an empty list of actions a turn of the default \<open>Player\<close>
  raises nothing; the pile becomes \<open>undefined\<close> and the game goes on.
\<close>

theorem empty_actions_counterexample:
  "playNextTurn Player_play no_action_game =
     Inr \<lparr>player1 = \<lparr>history = [\<lparr>action = NaN, prevState = Num 24, nextState = NaN, reward = 0\<rparr>],
                      rewards = [], winCount = 0, loseCount = 0\<rparr>,
          player2 = \<lparr>history = [], rewards = [], winCount = 0, loseCount = 0\<rparr>,
          size_cfg = Num 24, actions = [], nstick = Undefined,
          finished = False, player = True\<rparr>"
  by (simp add: no_action_game_def new_StickGame_def restart_def new_Player_def gameRestart_def
      playNextTurn_def possibleNStick_def Player_play_def js_nth_def getPlayer_def setPlayer_def
      turnFinished_def Let_def)

text \<open>
  C7, amended. With an empty list of actions the offered list is empty. A turn of the
  default \<open>Player\<close> or of a \<open>RandomPlayer\<close> completes without an error: the pile
  becomes \<open>undefined\<close>, \<open>finished\<close> keeps its value and the pointer is flipped. A turn
  of a \<open>PlayerAI\<close> that takes the greedy branch raises the \<open>TypeError\<close> of \<open>reduce\<close>,
  and a turn of the synchronous \<open>HumanPlayer\<close> raises its \<open>Error("Bad action: ...")\<close>
  whatever the line is.
\<close>

theorem empty_actions_turn:
  assumes "actions g = []" and "actions ga = []" and "eps (getPlayer False ga) \<le> r"
  shows "(\<exists>g'. playNextTurn Player_play g = Inr g' \<and> nstick g' = Undefined
              \<and> finished g' = finished g \<and> player g' = (\<not> player g))
       \<and> (\<exists>g'. playNextTurn (RandomPlayer_play rnd) g = Inr g' \<and> nstick g' = Undefined
              \<and> finished g' = finished g \<and> player g' = (\<not> player g))
       \<and> playNextTurn (PlayerAI_play r rnd) ga = Inl TypeError
       \<and> playNextTurn (HumanPlayer_play line) g = Inl (BadAction (parseInt line))"
  using assms
  by (cases "parseInt line")
     (simp_all add: playNextTurn_def possibleNStick_def Player_play_def RandomPlayer_play_def
      randChoice_def PlayerAI_play_def HumanPlayer_play_def valid_action_def js_nth_def Let_def)

theorem empty_actions_turn_witness:
  "actions no_action_game = [] \<and> actions no_action_ai_game = []
   \<and> eps (getPlayer False no_action_ai_game) \<le> 1 / 2
   \<and> (\<exists>g'. playNextTurn Player_play no_action_game = Inr g' \<and> nstick g' = Undefined
              \<and> finished g' = finished no_action_game \<and> player g' = (\<not> player no_action_game))
   \<and> (\<exists>g'. playNextTurn (RandomPlayer_play (1 / 3)) no_action_game = Inr g' \<and> nstick g' = Undefined
              \<and> finished g' = finished no_action_game \<and> player g' = (\<not> player no_action_game))
   \<and> playNextTurn (PlayerAI_play (1 / 2) (1 / 3)) no_action_ai_game = Inl TypeError
   \<and> playNextTurn (HumanPlayer_play ''1'') no_action_game = Inl (BadAction (Num 1))"
proof -
  have d: "parseInt ''1'' = Num 1"
    by (simp add: parseInt_def isWhiteSpace_def isDigit_def digitsValue_def)
  have a: "actions no_action_game = []"
    by (simp add: no_action_game_def new_StickGame_def restart_def)
  have b: "actions no_action_ai_game = []"
    by (simp add: no_action_ai_game_def new_StickGame_def restart_def)
  have c: "eps (getPlayer False no_action_ai_game) \<le> 1 / 2"
    by (simp add: no_action_ai_game_def new_StickGame_def restart_def getPlayer_def
        gameRestart_def new_PlayerAI_def)
  from empty_actions_turn [OF a b c, of "1 / 3" "''1''"] a b c d show ?thesis by simp
qed

section \<open>Properties of a completed game\<close>

lemmas game_eval =
  new_StickGame_def restart_def new_Player_def gameRestart_def isFinished_def
  playNextTurn_def possibleNStick_def Player_play_def js_nth_def getPlayer_def setPlayer_def
  turnFinished_def upd_last_def Let_def

lemma two_stick_run:
  "play_game [Player_play, Player_play] (restart 0 two_stick_setup) = Some (Inr two_stick_final)"
  by (simp add: two_stick_setup_def two_stick_final_def game_eval)

lemma playNextTurn_Inr:
  assumes "playNextTurn play g = Inr g1" and "\<not> finished g"
  shows "\<exists>n. play (getPlayer False g) (nstick g) (possibleNStick g) = Inr n
     \<and> nstick g1 = n \<and> finished g1 = js_le0 n \<and> player g1 = (\<not> player g)
     \<and> size_cfg g1 = size_cfg g \<and> actions g1 = actions g
     \<and> getPlayer True g1 = turnFinished True (js_le0 n) (nstick g) n
                              (js_sub (nstick g) n) (getPlayer False g)
     \<and> getPlayer False g1 = turnFinished False (js_le0 n) (nstick g) n
                              (js_sub (nstick g) n) (getPlayer True g)"
proof (cases "play (getPlayer False g) (nstick g) (possibleNStick g)")
  case (Inl e)
  with assms show ?thesis by (simp add: playNextTurn_def Let_def)
next
  case (Inr n)
  from assms(2) have fin: "(if js_le0 n then True else finished g) = js_le0 n" by simp
  from assms(1) Inr have "g1 = (setPlayer True
          (turnFinished False (js_le0 n) (nstick g) n (js_sub (nstick g) n) (getPlayer True g))
          (setPlayer False
             (turnFinished True (js_le0 n) (nstick g) n (js_sub (nstick g) n) (getPlayer False g))
             g))\<lparr>nstick := n, finished := js_le0 n, player := \<not> player g\<rparr>"
    by (simp add: playNextTurn_def Let_def fin)
  with Inr show ?thesis
    by (simp add: getPlayer_def setPlayer_def)
qed

lemma turnFinished_mover_go_on:
  "same_stats P p \<Longrightarrow> same_stats P (turnFinished True False s n a p)"
  "history (turnFinished True False s n a p) \<noteq> []"
  by (simp_all add: turnFinished_def same_stats_def Let_def)

lemma turnFinished_other_go_on:
  "same_stats P p \<Longrightarrow> same_stats P (turnFinished False False s n a p)"
  by (simp add: turnFinished_def same_stats_def Let_def upd_last_def)

lemma turnFinished_mover_over:
  "same_stats P p \<Longrightarrow> lost P (turnFinished True True s n a p)"
  by (simp add: turnFinished_def lost_def same_stats_def Let_def)

lemma turnFinished_other_over:
  "same_stats P p \<Longrightarrow> won_if_moved P (turnFinished False True s n a p)"
  by (simp add: turnFinished_def won_if_moved_def won_def same_stats_def Let_def upd_last_def)

lemma terminal_rewards_getPlayer:
  "terminal_rewards P1 P2 g' =
     (lost (if player g' then P1 else P2) (getPlayer True g')
      \<and> won_if_moved (if player g' then P2 else P1) (getPlayer False g'))"
  by (simp add: terminal_rewards_def getPlayer_def)

lemma play_game_stats:
  assumes "play_game plays g0 = Some (Inr g')" and "\<not> finished g0"
    and "same_stats P1 (player1 g0)" and "same_stats P2 (player2 g0)"
  shows "finished g' \<and> terminal_rewards P1 P2 g'"
  using assms
proof (induction plays arbitrary: g0)
  case Nil
  then show ?case by (simp add: isFinished_def)
next
  case (Cons play rest)
  from Cons.prems obtain g1 where step: "playNextTurn play g0 = Inr g1"
    and run: "play_game rest g1 = Some (Inr g')"
    by (auto simp add: isFinished_def split: sum.splits)
  from playNextTurn_Inr [OF step Cons.prems(2)] obtain n where
    fin: "finished g1 = js_le0 n" and ptr: "player g1 = (\<not> player g0)"
    and mover: "getPlayer True g1 = turnFinished True (js_le0 n) (nstick g0) n
                              (js_sub (nstick g0) n) (getPlayer False g0)"
    and other: "getPlayer False g1 = turnFinished False (js_le0 n) (nstick g0) n
                              (js_sub (nstick g0) n) (getPlayer True g0)"
    by blast
  have base: "same_stats (if player g1 then P1 else P2) (getPlayer False g0)"
             "same_stats (if player g1 then P2 else P1) (getPlayer True g0)"
    using Cons.prems(3,4) ptr by (simp_all add: getPlayer_def)
  show ?case
  proof (cases "js_le0 n")
    case True
    with fin run have g': "g' = g1" by (cases rest) (simp_all add: isFinished_def)
    from True base mover other show ?thesis
      unfolding g' terminal_rewards_getPlayer
      by (simp add: fin turnFinished_mover_over turnFinished_other_over)
  next
    case False
    from False base mover other
    have "same_stats (if player g1 then P1 else P2) (getPlayer True g1)"
         "same_stats (if player g1 then P2 else P1) (getPlayer False g1)"
      by (simp_all add: turnFinished_mover_go_on turnFinished_other_go_on)
    then have "same_stats P1 (player1 g1)" "same_stats P2 (player2 g1)"
      by (simp_all add: getPlayer_def split: if_splits)
    with Cons.IH [OF run] False fin show ?thesis by simp
  qed
qed

text \<open>
  C3, as stated, fails: when the first move ends the game (one stick, actions
  \<open>[1, 2, 3]\<close>), the player that moved gets -1 and the other player, whose history is
  empty, gets no reward and no win.
\<close>

theorem first_turn_end_counterexample:
  "play_game [Player_play] one_stick_game =
     Some (Inr \<lparr>player1 = \<lparr>history = [\<lparr>action = Num 1, prevState = Num 1, nextState = NaN,
                                        reward = - 1\<rparr>],
                            rewards = [- 1], winCount = 0, loseCount = 1\<rparr>,
                player2 = \<lparr>history = [], rewards = [], winCount = 0, loseCount = 0\<rparr>,
                size_cfg = Num 1, actions = [Num 1, Num 2, Num 3], nstick = Num 0,
                finished = True, player = True\<rparr>)"
  by (simp add: one_stick_game_def game_eval)

text \<open>
  C3, amended. In every game played to completion (\<open>restart\<close>, then turns until
  finished) the player that made the last move has -1 appended to its rewards and its
  \<open>loseCount\<close> incremented; the other player has +1 appended and its \<open>winCount\<close>
  incremented when it has moved at least once in the game, and its statistics are unchanged
  when it has not.
\<close>

theorem completed_game_rewards:
  assumes "play_game plays (restart sp g) = Some (Inr g')"
  shows "finished g' \<and> terminal_rewards (player1 g) (player2 g) g'"
proof (rule play_game_stats [OF assms])
  show "\<not> finished (restart sp g)" by (simp add: restart_def)
  show "same_stats (player1 g) (player1 (restart sp g))"
    by (simp add: restart_def same_stats_def gameRestart_def)
  show "same_stats (player2 g) (player2 (restart sp g))"
    by (simp add: restart_def same_stats_def gameRestart_def)
qed

theorem completed_game_rewards_witness:
  "play_game [Player_play, Player_play] (restart 0 two_stick_setup) = Some (Inr two_stick_final)
   \<and> finished two_stick_final
   \<and> terminal_rewards (player1 two_stick_setup) (player2 two_stick_setup) two_stick_final"
  using completed_game_rewards [OF two_stick_run] two_stick_run by simp

lemma upd_last_snoc: "h \<noteq> [] \<Longrightarrow> upd_last f h = butlast h @ [f (last h)]"
  by (cases h rule: rev_cases) (simp_all add: upd_last_def)

lemma history_mover_go_on:
  "mover_ok (history p) \<Longrightarrow> other_ok (history (turnFinished True False s n a p))"
  by (simp add: turnFinished_def Let_def mover_ok_def other_ok_def pending_zero_def)

lemma history_other_go_on:
  "other_ok (history p) \<Longrightarrow> is_Num n \<Longrightarrow> mover_ok (history (turnFinished False False s n a p))"
  by (auto simp add: turnFinished_def Let_def mover_ok_def other_ok_def pending_zero_def
      filled_zero_def upd_last_snoc)

lemma history_mover_over:
  "mover_ok (history p) \<Longrightarrow>
     list_all finalized (butlast (history (turnFinished True True s n a p)))
     \<and> list_all (\<lambda>t. reward_ok t \<and> \<not> pending_zero t) (history (turnFinished True True s n a p))"
  by (auto simp add: turnFinished_def Let_def mover_ok_def upd_last_snoc finalized_def
      filled_zero_def reward_ok_def pending_zero_def list_all_iff)

lemma history_other_over:
  "other_ok (history p) \<Longrightarrow> is_Num n \<Longrightarrow>
     list_all finalized (history (turnFinished False True s n a p))
     \<and> list_all (\<lambda>t. reward_ok t \<and> \<not> pending_zero t) (history (turnFinished False True s n a p))"
  by (auto simp add: turnFinished_def Let_def other_ok_def upd_last_snoc finalized_def
      filled_zero_def reward_ok_def pending_zero_def list_all_iff)

lemma conforming_Num:
  assumes "conforming play" and "play p (nstick g) (possibleNStick g) = Inr n"
    and "nstick g = Num k" and "actions g = map Num as" and "as \<noteq> []"
  shows "is_Num n"
proof -
  from assms(3,4,5) have ne: "possibleNStick g \<noteq> []" by (simp add: possibleNStick_def)
  with assms(1,2) have "n \<in> set (possibleNStick g)"
    unfolding conforming_def by (metis sum.case(2))
  with assms(3,4) show ?thesis by (auto simp add: possibleNStick_def)
qed

lemma conforming_Player_play: "conforming Player_play"
  by (simp add: conforming_def Player_play_def js_nth_def)

lemma play_game_records:
  assumes "play_game plays g0 = Some (Inr g')" and "\<not> finished g0"
    and "is_Num (nstick g0)" and "actions g0 = map Num as" and "as \<noteq> []"
    and "\<forall>play\<in>set plays. conforming play"
    and "mover_ok (history (getPlayer False g0))" and "other_ok (history (getPlayer True g0))"
  shows "records_ok g'"
  using assms
proof (induction plays arbitrary: g0)
  case Nil
  then show ?case by (simp add: isFinished_def)
next
  case (Cons play rest)
  from Cons.prems obtain g1 where step: "playNextTurn play g0 = Inr g1"
    and run: "play_game rest g1 = Some (Inr g')"
    by (auto simp add: isFinished_def split: sum.splits)
  from playNextTurn_Inr [OF step Cons.prems(2)] obtain n where
    res: "play (getPlayer False g0) (nstick g0) (possibleNStick g0) = Inr n"
    and pile: "nstick g1 = n" and fin: "finished g1 = js_le0 n"
    and acts: "actions g1 = actions g0"
    and mover: "getPlayer True g1 = turnFinished True (js_le0 n) (nstick g0) n
                              (js_sub (nstick g0) n) (getPlayer False g0)"
    and other: "getPlayer False g1 = turnFinished False (js_le0 n) (nstick g0) n
                              (js_sub (nstick g0) n) (getPlayer True g0)"
    by blast
  from Cons.prems(3) obtain k where k: "nstick g0 = Num k" by (cases "nstick g0") simp_all
  from Cons.prems(6) have "conforming play" by simp
  from conforming_Num [OF this res k Cons.prems(4,5)] have num: "is_Num n" .
  show ?case
  proof (cases "js_le0 n")
    case True
    with fin run have g': "g' = g1" by (cases rest) (simp_all add: isFinished_def)
    from history_mover_over [OF Cons.prems(7)] history_other_over [OF Cons.prems(8) num]
    show ?thesis
      unfolding g' records_ok_def mover other using True by simp
  next
    case False
    have "mover_ok (history (getPlayer False g1))" "other_ok (history (getPlayer True g1))"
      using False mover other history_mover_go_on [OF Cons.prems(7)]
        history_other_go_on [OF Cons.prems(8) num] by simp_all
    moreover have "\<forall>play\<in>set rest. conforming play" using Cons.prems(6) by simp
    ultimately show ?thesis
      using Cons.IH [OF run] False fin pile num acts Cons.prems(4,5) by simp
  qed
qed

text \<open>
  C6. In a game played to completion, with an integer pile, a non-empty list of integer
  actions and players that return one of the offered states, every record that has been
  finalized has a number as \<open>nextState\<close> and a reward among -1, 0 and 1, and no record
  of either history has a pending \<open>nextState\<close> with reward 0. (The last record of the
  player that lost is never finalized: it keeps the placeholder, with reward -1.)
\<close>

theorem completed_game_records:
  assumes "play_game plays (restart sp g) = Some (Inr g')"
    and "size_cfg g = Num n" and "actions g = map Num as" and "as \<noteq> []"
    and "\<forall>play\<in>set plays. conforming play"
  shows "records_ok g'"
proof (rule play_game_records [OF assms(1) _ _ _ assms(4,5)])
  show "\<not> finished (restart sp g)" by (simp add: restart_def)
  show "is_Num (nstick (restart sp g))" using assms(2) by (simp add: restart_def)
  show "actions (restart sp g) = map Num as" using assms(3) by (simp add: restart_def)
  show "mover_ok (history (getPlayer False (restart sp g)))"
    by (simp add: restart_def getPlayer_def gameRestart_def mover_ok_def)
  show "other_ok (history (getPlayer True (restart sp g)))"
    by (simp add: restart_def getPlayer_def gameRestart_def other_ok_def)
qed

theorem completed_game_records_witness:
  "play_game [Player_play, Player_play] (restart 0 two_stick_setup) = Some (Inr two_stick_final)
   \<and> size_cfg two_stick_setup = Num 2
   \<and> actions two_stick_setup = map Num [1, 2, 3]
   \<and> [1, 2, 3] \<noteq> ([] :: int list)
   \<and> conforming (Player_play :: unit play_fn)
   \<and> records_ok two_stick_final"
proof -
  have a: "size_cfg two_stick_setup = Num 2" by (simp add: two_stick_setup_def)
  have b: "actions two_stick_setup = map Num [1, 2, 3]" by (simp add: two_stick_setup_def)
  have c: "[1, 2, 3] \<noteq> ([] :: int list)" by simp
  have d: "\<forall>play\<in>set [Player_play, Player_play :: unit play_fn]. conforming play"
    by (simp add: conforming_Player_play)
  from completed_game_records [OF two_stick_run a b c d] two_stick_run a b c
    conforming_Player_play
  show ?thesis by simp
qed

section \<open>Properties of HumanPlayer.play\<close>

lemma HumanPlayer_play_async_skip:
  assumes "\<forall>j<k. \<not> valid_action (parseInt (input (m + j))) ps"
  shows "HumanPlayer_play_async input m ps = HumanPlayer_play_async input (m + k) ps"
  using assms
proof (induction k arbitrary: m)
  case 0
  then show ?case by simp
next
  case (Suc k)
  from Suc.prems have first: "\<not> valid_action (parseInt (input m)) ps" by force
  from Suc.prems have "\<forall>j<k. \<not> valid_action (parseInt (input (Suc m + j))) ps" by force
  from Suc.IH [OF this] first show ?case
    by (subst HumanPlayer_play_async.simps) simp
qed

lemma HumanPlayer_play_async_never:
  assumes "\<forall>j. \<not> valid_action (parseInt (input j)) ps"
  shows "HumanPlayer_play_async input k ps = None"
proof (cases "HumanPlayer_play_async input k ps")
  case None
  then show ?thesis .
next
  case (Some y)
  then have "\<exists>j. valid_action (parseInt (input j)) ps"
    by (rule HumanPlayer_play_async.raw_induct
          [rotated, where P = "\<lambda>inp k ps y. \<exists>j. valid_action (parseInt (inp j)) ps"])
       (auto split: if_splits)
  with assms show ?thesis by blast
qed

lemma valid_action_iff:
  "valid_action a ps \<longleftrightarrow> (\<exists>i. a = Num i \<and> 1 \<le> i \<and> i \<le> int (length ps))"
  by (cases a) (auto simp add: valid_action_def js_strict_ne_NaN_def)

lemma parse_keys:
  "parseInt (typed_keys 0) = NaN" "parseInt (typed_keys (Suc 0)) = Num 0"
  "parseInt (typed_keys 2) = Num 4" "parseInt (typed_keys 3) = Num 3"
  "parseInt (one_key 0) = Num 1"
  by (simp_all add: typed_keys_def one_key_def parseInt_def isWhiteSpace_def isDigit_def
      digitsValue_def)

text \<open>
  C4, as stated, fails for the synchronous variant: on the line \<open>x\<close> it raises
  \<open>Error("Bad action: NaN")\<close> to its caller.
\<close>

theorem HumanPlayer_play_throws_counterexample:
  "HumanPlayer_play ''x'' new_Player (Num 5) [Num 4, Num 3, Num 2] = Inl (BadAction NaN)"
  by (simp add: HumanPlayer_play_def parseInt_def valid_action_def isWhiteSpace_def isDigit_def)

text \<open>
  C4, amended. Let the first \<open>k\<close> answers parse to something that is not a number or to
  an index outside \<open>[1, number of offered states]\<close>, and answer \<open>k\<close> parse to an index
  \<open>i\<close> inside it. The terminal variant of \<open>play\<close> asks again after each bad answer,
  raises nothing, and returns the offered state at index \<open>i\<close>. The synchronous variant
  reads one line: it returns the offered state at index \<open>i\<close> on the good answer, and on
  each of the bad ones it throws \<open>Error("Bad action: ...")\<close>.
\<close>

theorem HumanPlayer_play_variants:
  assumes "\<forall>j<k. \<not> (\<exists>i. parseInt (input j) = Num i \<and> 1 \<le> i \<and> i \<le> int (length ps))"
    and "parseInt (input k) = Num i" and "1 \<le> i" and "i \<le> int (length ps)"
  shows "HumanPlayer_play_async input 0 ps = Some (ps ! nat (i - 1))
       \<and> HumanPlayer_play (input k) p s ps = Inr (ps ! nat (i - 1))
       \<and> list_all (\<lambda>j. HumanPlayer_play (input j) p s ps = Inl (BadAction (parseInt (input j))))
            [0..<k]"
proof -
  from assms(1) have bad: "\<forall>j<k. \<not> valid_action (parseInt (input j)) ps"
    by (simp add: valid_action_iff)
  from assms(2,3,4) have ok: "valid_action (parseInt (input k)) ps"
    by (simp add: valid_action_iff)
  from assms(3,4) have "nat (i - 1) < length ps" by linarith
  with assms(2,3) have pick:
    "js_index ps (js_sub (parseInt (input k)) (Num 1)) = ps ! nat (i - 1)"
    by (simp add: js_nth_def)
  from bad have "HumanPlayer_play_async input 0 ps = HumanPlayer_play_async input (0 + k) ps"
    by (intro HumanPlayer_play_async_skip) simp
  also from ok pick have "\<dots> = Some (ps ! nat (i - 1))"
    by (subst HumanPlayer_play_async.simps) simp
  finally have loop: "HumanPlayer_play_async input 0 ps = Some (ps ! nat (i - 1))" .
  from ok pick have once: "HumanPlayer_play (input k) p s ps = Inr (ps ! nat (i - 1))"
    by (simp add: HumanPlayer_play_def)
  from bad have throws:
    "list_all (\<lambda>j. HumanPlayer_play (input j) p s ps = Inl (BadAction (parseInt (input j)))) [0..<k]"
    by (simp add: list_all_iff HumanPlayer_play_def)
  from loop once throws show ?thesis by blast
qed

theorem HumanPlayer_play_variants_witness:
  "parseInt (typed_keys 0) = NaN
   \<and> parseInt (typed_keys 1) = Num 0
   \<and> parseInt (typed_keys 2) = Num 4
   \<and> parseInt (typed_keys 3) = Num 3
   \<and> int (length [Num 4, Num 3, Num 2]) = 3
   \<and> HumanPlayer_play_async typed_keys 0 [Num 4, Num 3, Num 2] = Some (Num 2)
   \<and> HumanPlayer_play (typed_keys 3) new_Player (Num 5) [Num 4, Num 3, Num 2] = Inr (Num 2)
   \<and> HumanPlayer_play (typed_keys 0) new_Player (Num 5) [Num 4, Num 3, Num 2] = Inl (BadAction NaN)
   \<and> HumanPlayer_play (typed_keys 1) new_Player (Num 5) [Num 4, Num 3, Num 2]
       = Inl (BadAction (Num 0))
   \<and> HumanPlayer_play (typed_keys 2) new_Player (Num 5) [Num 4, Num 3, Num 2]
       = Inl (BadAction (Num 4))
   \<and> parseInt (one_key 0) = Num 1
   \<and> HumanPlayer_play_async one_key 0 [Num 4, Num 3, Num 2] = Some (Num 4)
   \<and> HumanPlayer_play (one_key 0) new_Player (Num 5) [Num 4, Num 3, Num 2] = Inr (Num 4)"
proof -
  have p1: "parseInt (typed_keys 1) = Num 0" using parse_keys(2) by simp
  have bad: "\<forall>j<3. \<not> (\<exists>i. parseInt (typed_keys j) = Num i \<and> 1 \<le> i
                          \<and> i \<le> int (length [Num 4, Num 3, Num 2]))"
  proof (intro allI impI)
    fix j :: nat
    assume "j < 3"
    then have "j = 0 \<or> j = 1 \<or> j = 2" by auto
    then show "\<not> (\<exists>i. parseInt (typed_keys j) = Num i \<and> 1 \<le> i
                      \<and> i \<le> int (length [Num 4, Num 3, Num 2]))"
      using parse_keys(1,3) p1 by auto
  qed
  have up: "[0..<3] = [0, 1, 2]" by (simp add: upt_rec numeral_3_eq_3)
  have none: "\<forall>j<0. \<not> (\<exists>i. parseInt (one_key j) = Num i \<and> 1 \<le> i
                          \<and> i \<le> int (length [Num 4, Num 3, Num 2]))"
    by simp
  from HumanPlayer_play_variants [OF bad parse_keys(4), of new_Player "Num 5"]
  have last: "HumanPlayer_play_async typed_keys 0 [Num 4, Num 3, Num 2] = Some (Num 2)
       \<and> HumanPlayer_play (typed_keys 3) new_Player (Num 5) [Num 4, Num 3, Num 2] = Inr (Num 2)
       \<and> HumanPlayer_play (typed_keys 0) new_Player (Num 5) [Num 4, Num 3, Num 2]
           = Inl (BadAction NaN)
       \<and> HumanPlayer_play (typed_keys 1) new_Player (Num 5) [Num 4, Num 3, Num 2]
           = Inl (BadAction (Num 0))
       \<and> HumanPlayer_play (typed_keys 2) new_Player (Num 5) [Num 4, Num 3, Num 2]
           = Inl (BadAction (Num 4))"
    by (simp add: up parse_keys(1,2,3))
  from HumanPlayer_play_variants [OF none parse_keys(5), of new_Player "Num 5"]
  have first: "HumanPlayer_play_async one_key 0 [Num 4, Num 3, Num 2] = Some (Num 4)
       \<and> HumanPlayer_play (one_key 0) new_Player (Num 5) [Num 4, Num 3, Num 2] = Inr (Num 4)"
    by simp
  from last first parse_keys(1,3,4,5) p1 show ?thesis by simp
qed

end
